theory Spec2Isabelle
  imports Main "HOL-Library.Word"
begin

unbundle bit_operations_syntax

section \<open>Values of the source language\<close>

text \<open>
  A JavaScript string is a sequence of 16-bit code units; \<open>substring\<close>, \<open>split\<close> and
  \<open>===\<close> work on code units. A \<open>Buffer\<close> or \<open>Uint8Array\<close> is a list of bytes.
  String literals of the source are written \<open>js ''...''\<close>.
\<close>

type_synonym byte = "8 word"
type_synonym js_string = "16 word list"

definition js :: "string \<Rightarrow> js_string" where
  "js s = map of_char s"

text \<open>
  Exceptions of the source are values. \<open>PqcUnavailable\<close> is the
  \<open>Error("WebAssembly SIMD required for PQC.")\<close> thrown by \<open>pqcInit\<close>; \<open>LibraryError\<close>
  stands for whatever a third-party primitive throws.
\<close>

datatype error = SyntaxError | TypeError | DataError | OperationError
  | PqcUnavailable | LibraryError

text \<open>The values \<open>JSON.parse\<close> produces. A number keeps its literal text.\<close>

datatype json = JNull | JBool bool | JNumber js_string | JString js_string
  | JArray "json list" | JObject "(js_string \<times> json) list"

section \<open>Hexadecimal transfer encoding of buffers\<close>

text \<open>
  \<open>buf.toString("hex")\<close> writes two lower-case digits per byte.
  \<open>Buffer.from(s, "hex")\<close> reads pairs of digits (either case) and stops, without an
  error, at the first pair that is not two hexadecimal digits; a trailing single
  character is dropped.
\<close>

definition hex_digit :: "nat \<Rightarrow> 16 word" where
  "hex_digit n = (if n < 10 then of_nat (48 + n) else of_nat (87 + n))"

definition hex_value :: "16 word \<Rightarrow> nat option" where
  "hex_value c =
     (if 48 \<le> c \<and> c \<le> 57 then Some (unat c - 48)
      else if 97 \<le> c \<and> c \<le> 102 then Some (unat c - 87)
      else if 65 \<le> c \<and> c \<le> 70 then Some (unat c - 55)
      else None)"

fun hex_encode :: "byte list \<Rightarrow> js_string" where
  "hex_encode [] = []"
| "hex_encode (b # bs) =
     hex_digit (unat b div 16) # hex_digit (unat b mod 16) # hex_encode bs"

fun hex_decode :: "js_string \<Rightarrow> byte list" where
  "hex_decode (a # b # cs) =
     (case (hex_value a, hex_value b) of
        (Some h, Some l) \<Rightarrow> of_nat (16 * h + l) # hex_decode cs
      | _ \<Rightarrow> [])"
| "hex_decode _ = []"

section \<open>\<open>JSON.parse\<close>\<close>

text \<open>
  \<open>JSON.parse(text)\<close> returns the value the text denotes or throws \<open>SyntaxError\<close>.
  The text is cut into tokens and the tokens are read with a stack of the open
  arrays and objects. The grammar is that of ECMA-404: white space is space, tab, line
  feed and carriage return; a string may not hold a raw control character; after a
  backslash it knows the quote, the backslash, the slash, the letters b, f, n, r, t and
  u followed by four hexadecimal digits; a number is
  \<open>-? (0 | [1-9][0-9]*) (. [0-9]+)? ([eE] [+-]? [0-9]+)?\<close>.
\<close>

datatype token = TLBrace | TRBrace | TLBrack | TRBrack | TColon | TComma | TScalar json

definition is_ws :: "16 word \<Rightarrow> bool" where
  "is_ws c \<longleftrightarrow> c = 0x20 \<or> c = 0x09 \<or> c = 0x0A \<or> c = 0x0D"

definition is_digit :: "16 word \<Rightarrow> bool" where
  "is_digit c \<longleftrightarrow> 0x30 \<le> c \<and> c \<le> 0x39"

definition simple_escape :: "16 word \<Rightarrow> 16 word option" where
  "simple_escape e =
     (if e = 0x22 then Some 0x22 else if e = 0x5C then Some 0x5C
      else if e = 0x2F then Some 0x2F else if e = 0x62 then Some 0x08
      else if e = 0x66 then Some 0x0C else if e = 0x6E then Some 0x0A
      else if e = 0x72 then Some 0x0D else if e = 0x74 then Some 0x09
      else None)"

definition hex4 :: "16 word \<Rightarrow> 16 word \<Rightarrow> 16 word \<Rightarrow> 16 word \<Rightarrow> 16 word option" where
  "hex4 a b c d =
     (case (hex_value a, hex_value b, hex_value c, hex_value d) of
        (Some p, Some q, Some r, Some s) \<Rightarrow> Some (of_nat (4096 * p + 256 * q + 16 * r + s))
      | _ \<Rightarrow> None)"

fun lex_string :: "js_string \<Rightarrow> (js_string \<times> js_string) option" where
  "lex_string [] = None"
| "lex_string (c # cs) =
     (if c = 0x22 then Some ([], cs)
      else if c = 0x5C then
        (case cs of
           [] \<Rightarrow> None
         | e # es \<Rightarrow>
             if e = 0x75 then
               (case es of
                  h1 # h2 # h3 # h4 # rest \<Rightarrow>
                    (case hex4 h1 h2 h3 h4 of
                       None \<Rightarrow> None
                     | Some u \<Rightarrow> map_option (\<lambda>(s, r). (u # s, r)) (lex_string rest))
                | _ \<Rightarrow> None)
             else
               (case simple_escape e of
                  None \<Rightarrow> None
                | Some x \<Rightarrow> map_option (\<lambda>(s, r). (x # s, r)) (lex_string es)))
      else if c < 0x20 then None
      else map_option (\<lambda>(s, r). (c # s, r)) (lex_string cs))"

definition digits1 :: "js_string \<Rightarrow> bool" where
  "digits1 s \<longleftrightarrow> s \<noteq> [] \<and> list_all is_digit s"

definition is_exponent :: "js_string \<Rightarrow> bool" where
  "is_exponent s =
     (case s of
        [] \<Rightarrow> True
      | e # t \<Rightarrow> (e = 0x65 \<or> e = 0x45) \<and>
          (case t of
             [] \<Rightarrow> False
           | g # u \<Rightarrow> if g = 0x2B \<or> g = 0x2D then digits1 u else digits1 t))"

definition is_fraction_exponent :: "js_string \<Rightarrow> bool" where
  "is_fraction_exponent s =
     (case s of
        [] \<Rightarrow> True
      | d # t \<Rightarrow>
          if d = 0x2E then takeWhile is_digit t \<noteq> [] \<and> is_exponent (dropWhile is_digit t)
          else is_exponent s)"

definition is_json_number :: "js_string \<Rightarrow> bool" where
  "is_json_number s =
     (let t = (case s of [] \<Rightarrow> [] | c # r \<Rightarrow> if c = 0x2D then r else s) in
      case t of
        [] \<Rightarrow> False
      | d # r \<Rightarrow>
          if d = 0x30 then is_fraction_exponent r
          else is_digit d \<and> is_fraction_exponent (dropWhile is_digit r))"

definition is_number_char :: "16 word \<Rightarrow> bool" where
  "is_number_char c \<longleftrightarrow> is_digit c \<or> c = 0x2D \<or> c = 0x2B \<or> c = 0x2E \<or> c = 0x65 \<or> c = 0x45"

text \<open>The rest of the input after a string is shorter than the input: the lexer terminates.\<close>

lemma lex_string_length: "lex_string cs = Some (s, r) \<Longrightarrow> length r < length cs"
proof (induction cs arbitrary: s r rule: lex_string.induct)
  case 1
  then show ?case by simp
next
  case (2 c cs)
  then show ?case
    by (fastforce split: if_splits list.splits option.splits)
qed

function lex :: "js_string \<Rightarrow> token list option" where
  "lex [] = Some []"
| "lex (c # cs) =
     (if is_ws c then lex cs
      else if c = 0x7B then map_option (Cons TLBrace) (lex cs)
      else if c = 0x7D then map_option (Cons TRBrace) (lex cs)
      else if c = 0x5B then map_option (Cons TLBrack) (lex cs)
      else if c = 0x5D then map_option (Cons TRBrack) (lex cs)
      else if c = 0x3A then map_option (Cons TColon) (lex cs)
      else if c = 0x2C then map_option (Cons TComma) (lex cs)
      else if c = 0x22 then
        (case lex_string cs of
           None \<Rightarrow> None
         | Some (s, r) \<Rightarrow> map_option (Cons (TScalar (JString s))) (lex r))
      else if is_number_char c then
        (if is_json_number (c # takeWhile is_number_char cs)
         then map_option (Cons (TScalar (JNumber (c # takeWhile is_number_char cs))))
                (lex (dropWhile is_number_char cs))
         else None)
      else if take 4 (c # cs) = js ''true'' then map_option (Cons (TScalar (JBool True))) (lex (drop 3 cs))
      else if take 5 (c # cs) = js ''false'' then map_option (Cons (TScalar (JBool False))) (lex (drop 4 cs))
      else if take 4 (c # cs) = js ''null'' then map_option (Cons (TScalar JNull)) (lex (drop 3 cs))
      else None)"
  by pat_completeness auto
termination
  by (relation "measure length")
     (auto dest: lex_string_length simp: length_dropWhile_le less_Suc_eq_le)

datatype frame = FArray "json list" | FObject "(js_string \<times> json) list" "js_string option"

datatype expect = EValue | EValueOrClose | EKeyOrClose | EKey | EColon | ECommaOrClose | EDone

type_synonym pstate = "frame list \<times> expect \<times> json option"

fun push_value :: "json \<Rightarrow> frame list \<Rightarrow> pstate option" where
  "push_value v [] = Some ([], EDone, Some v)"
| "push_value v (FArray xs # st) = Some (FArray (v # xs) # st, ECommaOrClose, None)"
| "push_value v (FObject kvs (Some k) # st) = Some (FObject ((k, v) # kvs) None # st, ECommaOrClose, None)"
| "push_value v (FObject kvs None # st) = None"

fun parse_step :: "pstate \<Rightarrow> token \<Rightarrow> pstate option" where
  "parse_step (st, e, res) t =
     (if e = EValue \<or> e = EValueOrClose then
        (case t of
           TScalar v \<Rightarrow> push_value v st
         | TLBrack \<Rightarrow> Some (FArray [] # st, EValueOrClose, None)
         | TLBrace \<Rightarrow> Some (FObject [] None # st, EKeyOrClose, None)
         | TRBrack \<Rightarrow>
             (case st of
                FArray xs # st' \<Rightarrow> if e = EValueOrClose then push_value (JArray (rev xs)) st' else None
              | _ \<Rightarrow> None)
         | _ \<Rightarrow> None)
      else if e = EKeyOrClose \<or> e = EKey then
        (case (t, st) of
           (TScalar (JString k), FObject kvs None # st') \<Rightarrow> Some (FObject kvs (Some k) # st', EColon, None)
         | (TRBrace, FObject kvs None # st') \<Rightarrow>
             if e = EKeyOrClose then push_value (JObject (rev kvs)) st' else None
         | _ \<Rightarrow> None)
      else if e = EColon then
        (case t of TColon \<Rightarrow> Some (st, EValue, None) | _ \<Rightarrow> None)
      else if e = ECommaOrClose then
        (case (t, st) of
           (TComma, FArray xs # st') \<Rightarrow> Some (st, EValue, None)
         | (TRBrack, FArray xs # st') \<Rightarrow> push_value (JArray (rev xs)) st'
         | (TComma, FObject kvs None # st') \<Rightarrow> Some (st, EKey, None)
         | (TRBrace, FObject kvs None # st') \<Rightarrow> push_value (JObject (rev kvs)) st'
         | _ \<Rightarrow> None)
      else None)"

fun parse_tokens :: "pstate \<Rightarrow> token list \<Rightarrow> json option" where
  "parse_tokens (st, e, res) [] = (if e = EDone then res else None)"
| "parse_tokens ps (t # ts) =
     (case parse_step ps t of None \<Rightarrow> None | Some ps' \<Rightarrow> parse_tokens ps' ts)"

definition JSON_parse :: "js_string \<Rightarrow> error + json" where
  "JSON_parse text =
     (case lex text of
        None \<Rightarrow> Inl SyntaxError
      | Some ts \<Rightarrow>
          (case parse_tokens ([], EValue, None) ts of
             None \<Rightarrow> Inl SyntaxError
           | Some v \<Rightarrow> Inr v))"

text \<open>
  Reading a property of a parsed value, for the property names the sources read
  (\<open>event\<close>, \<open>encrypted_content\<close>, \<open>sender\<close>), which no prototype defines: on \<open>null\<close>
  the access throws \<open>TypeError\<close>; on an object it gives the value of the last member of
  that name, or \<open>undefined\<close> (\<open>None\<close>); on any other value it gives \<open>undefined\<close>.
\<close>

fun get_prop :: "json \<Rightarrow> js_string \<Rightarrow> error + json option" where
  "get_prop JNull name = Inl TypeError"
| "get_prop (JObject kvs) name = Inr (map_of (rev kvs) name)"
| "get_prop _ name = Inr None"

section \<open>The platform the library runs on\<close>

text \<open>
  The cryptographic primitives, the text codec and the random source are not code of
  this repository: Web Crypto (\<open>subtle.importKey\<close>, \<open>subtle.encrypt\<close>,
  \<open>subtle.decrypt\<close>, \<open>crypto.getRandomValues\<close>), \<open>TextEncoder\<close>/\<open>TextDecoder\<close>, the
  WebAssembly PQC module behind \<open>pqcInit\<close>, the hash libraries and the StarkNet curve
  functions. They are the fields of a record that every operation takes as its first
  argument. A primitive that can throw returns \<open>error + 'a\<close>.
\<close>

record platform =
  getRandomValues :: "byte list"
  text_encode :: "js_string \<Rightarrow> byte list"
  text_decode :: "byte list \<Rightarrow> js_string"
  importKey :: "byte list \<Rightarrow> error + byte list"
  aes_gcm_encrypt :: "byte list \<Rightarrow> byte list \<Rightarrow> byte list \<Rightarrow> error + byte list"
  aes_gcm_decrypt :: "byte list \<Rightarrow> byte list \<Rightarrow> byte list \<Rightarrow> error + byte list"
  pqcInit :: "error + unit"
  kemKeypair :: "js_string \<Rightarrow> error + (byte list \<times> byte list)"
  dsa_verify :: "js_string \<Rightarrow> byte list \<Rightarrow> byte list \<Rightarrow> byte list \<Rightarrow> error + bool"
  poseidon_sha256 :: "js_string \<Rightarrow> js_string"
  computePedersenHash :: "js_string \<Rightarrow> error + js_string"
  ec_verify :: "js_string \<Rightarrow> js_string \<Rightarrow> json \<Rightarrow> error + bool"

section \<open>Proof of message authenticity\<close>

text \<open>
  \<open>generateZKProof(message)\<close> returns \<open>poseidonHash([sha256(message)])\<close>;
  \<open>verifyZKProof(message, proof?)\<close> compares the optional \<open>proof\<close> with the same
  commitment by \<open>===\<close>. An omitted \<open>proof\<close> is \<open>undefined\<close>, here \<open>None\<close>.
\<close>

definition generateZKProof :: "('a platform_scheme) \<Rightarrow> js_string \<Rightarrow> js_string" where
  "generateZKProof pf message = poseidon_sha256 pf message"

definition verifyZKProof :: "('a platform_scheme) \<Rightarrow> js_string \<Rightarrow> js_string option \<Rightarrow> bool" where
  "verifyZKProof pf message proof = (proof = Some (poseidon_sha256 pf message))"

section \<open>Key generation and identifiers\<close>

text \<open>
  The sources hold the crypto module in two variants. Where they differ, the definitions
  of the variant whose \<open>encryptAES\<close> is commented "Hybrid Kyber + AES" carry the
  suffix \<open>_hybrid\<close>.

  Every key generator initialises the PQC module, asks it for a keypair and returns both
  keys hex-encoded; \<open>generateKeypair\<close> is that shared body, and the generators differ
  in the algorithm name. \<open>generateKyberKeypair\<close> is \<open>kemKeypair("Kyber")\<close> in the hybrid
  variant and delegates to \<open>generateMLKEMKeypair\<close> in the other.
\<close>

record keypair =
  publicKey :: js_string
  privateKey :: js_string

definition generateKeypair :: "('a platform_scheme) \<Rightarrow> js_string \<Rightarrow> error + keypair" where
  "generateKeypair pf alg =
     (case pqcInit pf of
        Inl e \<Rightarrow> Inl e
      | Inr _ \<Rightarrow>
          (case kemKeypair pf alg of
             Inl e \<Rightarrow> Inl e
           | Inr (pk, sk) \<Rightarrow> Inr \<lparr>publicKey = hex_encode pk, privateKey = hex_encode sk\<rparr>))"

definition generateMLKEMKeypair :: "('a platform_scheme) \<Rightarrow> error + keypair" where
  "generateMLKEMKeypair pf = generateKeypair pf (js ''ML-KEM-1024'')"

definition generateKyberKeypair_hybrid :: "('a platform_scheme) \<Rightarrow> error + keypair" where
  "generateKyberKeypair_hybrid pf = generateKeypair pf (js ''Kyber'')"

definition generateKyberKeypair :: "('a platform_scheme) \<Rightarrow> error + keypair" where
  "generateKyberKeypair pf = generateMLKEMKeypair pf"

record did =
  did_id :: js_string
  did_publicKey :: js_string
  did_privateKey :: js_string

text \<open>\<open>s.substring(0, 16)\<close> is the first 16 code units of \<open>s\<close>, or all of a shorter \<open>s\<close>.\<close>

definition did_of_keypair :: "keypair \<Rightarrow> did" where
  "did_of_keypair kp =
     \<lparr>did_id = js ''did:tetracrypt:'' @ take 16 (publicKey kp),
      did_publicKey = publicKey kp,
      did_privateKey = privateKey kp\<rparr>"

definition generateDID_hybrid :: "('a platform_scheme) \<Rightarrow> error + did" where
  "generateDID_hybrid pf =
     (case generateKyberKeypair_hybrid pf of
        Inl e \<Rightarrow> Inl e
      | Inr kp \<Rightarrow> Inr (did_of_keypair kp))"

definition generateDID :: "('a platform_scheme) \<Rightarrow> error + did" where
  "generateDID pf =
     (case generateMLKEMKeypair pf of
        Inl e \<Rightarrow> Inl e
      | Inr kp \<Rightarrow> Inr (did_of_keypair kp))"

section \<open>Signature verification\<close>

text \<open>
  \<open>verifySignature\<close> initialises the PQC module and hands the message bytes and the
  hex-decoded signature and key to the module's \<open>verify\<close>. The two variants of the
  module differ in the algorithm name. \<open>Buffer.from(message)\<close> is the UTF-8 encoding,
  the same as \<open>TextEncoder\<close>'s.
\<close>

definition verifySignature_alg ::
  "('a platform_scheme) \<Rightarrow> js_string \<Rightarrow> js_string \<Rightarrow> js_string \<Rightarrow> js_string \<Rightarrow> error + bool" where
  "verifySignature_alg pf alg message signature pubKey =
     (case pqcInit pf of
        Inl e \<Rightarrow> Inl e
      | Inr _ \<Rightarrow>
          dsa_verify pf alg (text_encode pf message) (hex_decode signature) (hex_decode pubKey))"

definition verifySignature ::
  "('a platform_scheme) \<Rightarrow> js_string \<Rightarrow> js_string \<Rightarrow> js_string \<Rightarrow> error + bool" where
  "verifySignature pf = verifySignature_alg pf (js ''SLH-DSA-SHAKE-256f'')"

definition verifySignature_hybrid ::
  "('a platform_scheme) \<Rightarrow> js_string \<Rightarrow> js_string \<Rightarrow> js_string \<Rightarrow> error + bool" where
  "verifySignature_hybrid pf = verifySignature_alg pf (js ''Dilithium'')"


section \<open>Symmetric encryption\<close>

text \<open>
  \<open>s.split(":")\<close> cuts \<open>s\<close> at every colon; the result always has at least one part.
\<close>

fun split_on :: "16 word \<Rightarrow> js_string \<Rightarrow> js_string list" where
  "split_on d [] = [[]]"
| "split_on d (c # cs) =
     (if c = d then [] # split_on d cs
      else (case split_on d cs of p # ps \<Rightarrow> (c # p) # ps | [] \<Rightarrow> [[c]]))"

text \<open>
  \<open>decryptAES\<close> is the same in both variants of the module. It takes the first two
  colon-separated parts of its input; a missing second part is \<open>undefined\<close>, on which
  \<open>Buffer.from\<close> throws \<open>TypeError\<close>. The key is imported at its full decoded length.
\<close>

definition decryptAES :: "('a platform_scheme) \<Rightarrow> js_string \<Rightarrow> js_string \<Rightarrow> error + js_string" where
  "decryptAES pf encryptedMessage key =
     (case split_on 0x3A encryptedMessage of
        ivHex # encryptedHex # _ \<Rightarrow>
          (case importKey pf (hex_decode key) of
             Inl e \<Rightarrow> Inl e
           | Inr cryptoKey \<Rightarrow>
               (case aes_gcm_decrypt pf cryptoKey (hex_decode ivHex) (hex_decode encryptedHex) of
                  Inl e \<Rightarrow> Inl e
                | Inr decrypted \<Rightarrow> Inr (text_decode pf decrypted)))
      | _ \<Rightarrow> Inl TypeError)"


text \<open>
  The variant commented "Hybrid Kyber + AES" imports only the first 32 bytes of the
  decoded key, and after sealing generates a Kyber keypair whose public key (a hex
  string), encoded once more, is appended as a third part.
\<close>

definition encryptAES_hybrid :: "('a platform_scheme) \<Rightarrow> js_string \<Rightarrow> js_string \<Rightarrow> error + js_string" where
  "encryptAES_hybrid pf message key =
     (let iv = getRandomValues pf; encodedMessage = text_encode pf message in
      case importKey pf (take 32 (hex_decode key)) of
        Inl e \<Rightarrow> Inl e
      | Inr cryptoKey \<Rightarrow>
          (case aes_gcm_encrypt pf cryptoKey iv encodedMessage of
             Inl e \<Rightarrow> Inl e
           | Inr encrypted \<Rightarrow>
               (case generateKyberKeypair_hybrid pf of
                  Inl e \<Rightarrow> Inl e
                | Inr kp \<Rightarrow>
                    (let hybridKey = hex_encode (text_encode pf (publicKey kp)) in
                     Inr (hex_encode iv @ js '':'' @ hex_encode encrypted @ js '':'' @ hybridKey)))))"

text \<open>
  What the round trip needs from the platform: only raw keys of 16, 24 or 32 bytes are
  importable (AES-128, -192 and -256); with an imported key sealing under the drawn
  nonce succeeds and opening the result under the same nonce gives the plaintext back;
  the text decoder inverts the text encoder.
\<close>

definition aead_contract :: "('a platform_scheme) \<Rightarrow> bool" where
  "aead_contract pf \<longleftrightarrow>
     (\<forall>b k. importKey pf b = Inr k \<longrightarrow> length b \<in> {16, 24, 32}) \<and>
     (\<forall>b k p. importKey pf b = Inr k \<longrightarrow>
        (\<exists>c. aes_gcm_encrypt pf k (getRandomValues pf) p = Inr c
           \<and> aes_gcm_decrypt pf k (getRandomValues pf) c = Inr p)) \<and>
     (\<forall>s. text_decode pf (text_encode pf s) = s)"

section \<open>The storage module\<close>

text \<open>
  The types \<open>UserProfile\<close>, \<open>Contact\<close> and \<open>Message\<close> are declared in
  \<open>storage-types\<close>, which is not among the sources. \<open>UserProfile\<close> and \<open>Contact\<close> get
  the fields the sources read and write; a record scheme stands for a value with any
  further fields. A string field that may be absent is an \<open>option\<close>; \<open>!s\<close> holds of an
  absent and of an empty string.
\<close>

record user_profile =
  userId :: js_string
  sessionKey :: js_string
  starknetAddress :: js_string

record contact =
  contact_id :: js_string
  contact_publicKey :: "js_string option"
  signatureKey :: "js_string option"

text \<open>
  Modelled from the spec: the type \<open>Message\<close> of \<open>storage-types\<close>, with the fields of
  the spec's data model, \<open>{ id, sender, receiver, content, timestamp, status }\<close>. The
  sources read \<open>id\<close>, \<open>sender\<close> and \<open>receiver\<close> and assign the string \<open>'read'\<close> to
  \<open>status\<close>.
\<close>

record message =
  msg_id :: js_string
  sender :: js_string
  receiver :: js_string
  content :: js_string
  timestamp :: nat
  status :: js_string

text \<open>
  The module keeps \<open>storage\<close>, an object with three fields, and mirrors it into the
  browser's \<open>localStorage\<close>, a map from item names to texts. \<open>JSON.stringify\<close> and
  \<open>JSON.parse\<close> at the declared types are parameters.
\<close>

record ('u, 'c, 'm) storage =
  currentUser :: "'u user_profile_scheme option"
  contacts :: "'c contact_scheme list"
  messages :: "'m message_scheme list"
  localStorage :: "js_string \<rightharpoonup> js_string"

record ('u, 'c, 'm) serializer =
  parse_profile :: "js_string \<Rightarrow> error + 'u user_profile_scheme option"
  parse_contacts :: "js_string \<Rightarrow> error + 'c contact_scheme list"
  stringify_messages :: "'m message_scheme list \<Rightarrow> js_string"

text \<open>\<open>if (stored)\<close> on the result of \<open>getItem\<close>: the item exists and is not empty.\<close>

definition getItem :: "('u, 'c, 'm) storage \<Rightarrow> js_string \<Rightarrow> js_string option" where
  "getItem st name = (case localStorage st name of Some t \<Rightarrow> if t = [] then None else Some t | None \<Rightarrow> None)"


text \<open>
  The callback of \<open>storage.contacts.map\<close> in \<open>getContacts\<close>:
  \<open>signatureKey: contact.publicKey || ""\<close> where \<open>!contact.signatureKey\<close>.
\<close>

definition with_signatureKey :: "'c contact_scheme \<Rightarrow> 'c contact_scheme" where
  "with_signatureKey c =
     (if signatureKey c = None \<or> signatureKey c = Some [] then
        c\<lparr>signatureKey := Some (case contact_publicKey c of Some p \<Rightarrow> p | None \<Rightarrow> [])\<rparr>
      else c)"

definition getContacts ::
  "('u, 'c, 'm) serializer \<Rightarrow> ('u, 'c, 'm) storage \<Rightarrow>
   (error + 'c contact_scheme list) \<times> ('u, 'c, 'm) storage" where
  "getContacts sz st =
     (let loaded =
        (if contacts st = [] then
           (case getItem st (js ''contacts'') of
              None \<Rightarrow> Inr st
            | Some storedContacts \<Rightarrow>
                (case parse_contacts sz storedContacts of
                   Inl e \<Rightarrow> Inl e
                 | Inr cs \<Rightarrow> Inr (st\<lparr>contacts := cs\<rparr>)))
         else Inr st)
      in case loaded of
           Inl e \<Rightarrow> (Inl e, st)
         | Inr st1 \<Rightarrow>
             (let st2 = st1\<lparr>contacts := map with_signatureKey (contacts st1)\<rparr>
              in (Inr (contacts st2), st2)))"

definition getContactById ::
  "('u, 'c, 'm) serializer \<Rightarrow> ('u, 'c, 'm) storage \<Rightarrow> js_string \<Rightarrow>
   (error + 'c contact_scheme option) \<times> ('u, 'c, 'm) storage" where
  "getContactById sz st ident =
     (case getContacts sz st of
        (Inl e, st') \<Rightarrow> (Inl e, st')
      | (Inr cs, st') \<Rightarrow> (Inr (find (\<lambda>contact. contact_id contact = ident) cs), st'))"



section \<open>The message list component\<close>

text \<open>
  The component keeps the list of shown messages twice, as React state and in
  \<open>messagesRef\<close>; \<open>console\<close> records the warnings and errors it logs. A shown message
  carries \<open>data.sender\<close> as received, which is any JSON value or \<open>undefined\<close>.
\<close>

record chat_message =
  chat_sender :: "json option"
  chat_content :: js_string
  chat_timestamp :: nat

datatype log_entry = DuplicateSkipped | InvalidProof | ProcessingFailed error | FetchFailed error

record message_list =
  chat_messages :: "chat_message list"
  messagesRef :: "chat_message list"
  loading :: bool
  console :: "log_entry list"

text \<open>
  \<open>messagesRef.current.some((msg) => msg.content === data.encrypted_content)\<close>: the
  content of a shown message, a string, is compared with the received field.
\<close>

definition is_duplicate :: "chat_message list \<Rightarrow> json option \<Rightarrow> bool" where
  "is_duplicate ref encrypted_content =
     list_ex (\<lambda>msg. Some (JString (chat_content msg)) = encrypted_content) ref"

text \<open>
  \<open>verifyZKProof(data.encrypted_content)\<close>: the call passes one argument, so \<open>proof\<close>
  is \<open>undefined\<close>. The hash libraries take strings; on any other value they throw.
\<close>

definition verify_received :: "('a platform_scheme) \<Rightarrow> json option \<Rightarrow> error + bool" where
  "verify_received pf encrypted_content =
     (case encrypted_content of
        Some (JString c) \<Rightarrow> Inr (verifyZKProof pf c None)
      | _ \<Rightarrow> Inl LibraryError)"

definition decrypt_received ::
  "('a platform_scheme) \<Rightarrow> json option \<Rightarrow> js_string \<Rightarrow> error + js_string" where
  "decrypt_received pf encrypted_content key =
     (case encrypted_content of
        Some (JString c) \<Rightarrow> decryptAES pf c key
      | _ \<Rightarrow> Inl TypeError)"

text \<open>\<open>setMessages\<close> with the functional update, which also stores the new list in the ref.\<close>

definition append_message :: "message_list \<Rightarrow> chat_message \<Rightarrow> message_list" where
  "append_message ml msg =
     ml\<lparr>chat_messages := chat_messages ml @ [msg], messagesRef := chat_messages ml @ [msg]\<rparr>"

definition warn :: "message_list \<Rightarrow> log_entry \<Rightarrow> message_list" where
  "warn ml entry = ml\<lparr>console := console ml @ [entry]\<rparr>"

text \<open>
  The body of the \<open>try\<close> block of \<open>websocket.onmessage\<close>. \<open>now\<close> is \<open>Date.now()\<close>.
\<close>

definition onmessage_try ::
  "('a platform_scheme) \<Rightarrow> 'u user_profile_scheme \<Rightarrow> nat \<Rightarrow> message_list \<Rightarrow> js_string \<Rightarrow>
   error + message_list" where
  "onmessage_try pf user now ml event_data =
     (case JSON_parse event_data of
        Inl e \<Rightarrow> Inl e
      | Inr data \<Rightarrow>
          (case get_prop data (js ''event'') of
             Inl e \<Rightarrow> Inl e
           | Inr ev \<Rightarrow>
               if ev = Some (JString (js ''MessageSent'')) then
                 (case get_prop data (js ''encrypted_content'') of
                    Inl e \<Rightarrow> Inl e
                  | Inr encrypted_content \<Rightarrow>
                      if is_duplicate (messagesRef ml) encrypted_content
                      then Inr (warn ml DuplicateSkipped)
                      else
                        (case verify_received pf encrypted_content of
                           Inl e \<Rightarrow> Inl e
                         | Inr ok \<Rightarrow>
                             if \<not> ok then Inr (warn ml InvalidProof)
                             else
                               (case decrypt_received pf encrypted_content (sessionKey user) of
                                  Inl e \<Rightarrow> Inl e
                                | Inr decryptedContent \<Rightarrow>
                                    (case get_prop data (js ''sender'') of
                                       Inl e \<Rightarrow> Inl e
                                     | Inr sender_field \<Rightarrow>
                                         Inr (append_message ml
                                               \<lparr>chat_sender = sender_field,
                                                chat_content = decryptedContent,
                                                chat_timestamp = now\<rparr>)))))
               else Inr ml))"

text \<open>The handler: the \<open>catch\<close> clause logs the exception and returns.\<close>

definition websocket_onmessage ::
  "('a platform_scheme) \<Rightarrow> 'u user_profile_scheme \<Rightarrow> nat \<Rightarrow> message_list \<Rightarrow> js_string \<Rightarrow>
   error + message_list" where
  "websocket_onmessage pf user now ml event_data =
     (case onmessage_try pf user now ml event_data of
        Inl e \<Rightarrow> Inr (warn ml (ProcessingFailed e))
      | Inr ml' \<Rightarrow> Inr ml')"



section \<open>The connection\<close>

text \<open>
  \<open>connectWebSocket\<close> opens a socket and installs the handlers; \<open>onclose\<close> arms a timer
  that calls \<open>connectWebSocket\<close> again after 3000 ms. \<open>ws.close()\<close> closes the socket,
  upon which the browser fires the socket's \<open>close\<close> event: the same \<open>onclose\<close> handler
  runs, whoever closed. The channel records the state of the newest socket, the armed
  timers, the frames sent and the number of sockets opened.
\<close>

datatype connection = Disconnected | Connecting | Connected

record channel =
  connectionState :: connection
  timers :: "nat list"
  sent :: "js_string list"
  sockets_opened :: nat

definition connectWebSocket :: "channel \<Rightarrow> channel" where
  "connectWebSocket ch = ch\<lparr>connectionState := Connecting, sockets_opened := Suc (sockets_opened ch)\<rparr>"

definition subscription :: js_string where
  \<open>subscription =
     js ''{"contract_address":"0xYourStarkNetMessagingContractAddress","event":"MessageSent"}''\<close>

definition websocket_onopen :: "channel \<Rightarrow> channel" where
  "websocket_onopen ch = ch\<lparr>connectionState := Connected, sent := sent ch @ [subscription]\<rparr>"

definition websocket_onclose :: "channel \<Rightarrow> channel" where
  "websocket_onclose ch = ch\<lparr>connectionState := Disconnected, timers := timers ch @ [3000]\<rparr>"

definition timer_fires :: "channel \<Rightarrow> channel" where
  "timer_fires ch =
     (case timers ch of
        [] \<Rightarrow> ch
      | t # ts \<Rightarrow> connectWebSocket (ch\<lparr>timers := ts\<rparr>))"

definition ws_close :: "channel \<Rightarrow> channel" where
  "ws_close ch = websocket_onclose ch"

text \<open>
  The cleanup of the effect, \<open>if (ws) ws.close()\<close>; \<open>ws\<close> is the state variable as the
  effect's closure captured it.
\<close>

definition cleanup :: "bool \<Rightarrow> channel \<Rightarrow> channel" where
  "cleanup ws ch = (if ws then ws_close ch else ch)"

datatype channel_event = Opened | TransportClosed | CloseCalled | TimerFired

fun channel_step :: "channel \<Rightarrow> channel_event \<Rightarrow> channel" where
  "channel_step ch Opened = websocket_onopen ch"
| "channel_step ch TransportClosed = websocket_onclose ch"
| "channel_step ch CloseCalled = ws_close ch"
| "channel_step ch TimerFired = timer_fires ch"

definition mounted :: channel where
  "mounted = connectWebSocket \<lparr>connectionState = Disconnected, timers = [], sent = [], sockets_opened = 0\<rparr>"

section \<open>A small platform instance\<close>

text \<open>
  An instance of the record on which the operations can be evaluated: a byte-wise
  shift keyed by the first key byte in place of AES-GCM, the identity in place of the
  hashes, and a text codec that keeps code units below 128 as one byte and writes any
  other as an escape byte and two bytes.
\<close>

definition toy_encode_unit :: "16 word \<Rightarrow> byte list" where
  "toy_encode_unit c = (if c < 0x80 then [ucast c] else [0xFF, ucast (drop_bit 8 c), ucast c])"

definition toy_text_encode :: "js_string \<Rightarrow> byte list" where
  "toy_text_encode s = concat (map toy_encode_unit s)"

fun toy_text_decode :: "byte list \<Rightarrow> js_string" where
  "toy_text_decode [] = []"
| "toy_text_decode (b # bs) =
     (if b = 0xFF then
        (case bs of
           h # l # rest \<Rightarrow> (push_bit 8 (ucast h) OR ucast l) # toy_text_decode rest
         | _ \<Rightarrow> [])
      else ucast b # toy_text_decode bs)"

definition toy_platform :: platform where
  "toy_platform =
     \<lparr>getRandomValues = [1, 2, 3, 4, 5, 6, 7, 8, 9, 10, 11, 12],
      text_encode = toy_text_encode,
      text_decode = toy_text_decode,
      importKey = (\<lambda>b. if length b \<in> {16, 24, 32} then Inr b else Inl DataError),
      aes_gcm_encrypt = (\<lambda>k iv p. Inr (map (\<lambda>x. x + hd k) p)),
      aes_gcm_decrypt = (\<lambda>k iv c. Inr (map (\<lambda>x. x - hd k) c)),
      pqcInit = Inr (),
      kemKeypair = (\<lambda>alg. Inr ([171, 205], [239])),
      dsa_verify = (\<lambda>alg m s k. Inr (s = m)),
      poseidon_sha256 = (\<lambda>m. m),
      computePedersenHash = (\<lambda>m. Inr m),
      ec_verify = (\<lambda>k h s. Inr (s = JString h))\<rparr>"

definition toy_serializer :: "(unit, unit, unit) serializer" where
  "toy_serializer =
     \<lparr>parse_profile = (\<lambda>t. if t = js ''null'' then Inr None else Inl SyntaxError),
      parse_contacts = (\<lambda>t. if t = js ''[]'' then Inr [] else Inl SyntaxError),
      stringify_messages = (\<lambda>ms. concat (map (\<lambda>m. msg_id m @ js '':'' @ status m @ js '';'') ms))\<rparr>"

definition toy_storage :: "(unit, unit, unit) storage" where
  "toy_storage =
     \<lparr>currentUser = Some \<lparr>userId = js ''me'', sessionKey = js ''0102030405060708090a0b0c0d0e0f10'',
                          starknetAddress = js ''0x1''\<rparr>,
      contacts =
        [\<lparr>contact_id = js ''bob'', contact_publicKey = Some (js ''b0b0''), signatureKey = None\<rparr>,
         \<lparr>contact_id = js ''eve'', contact_publicKey = None, signatureKey = Some []\<rparr>,
         \<lparr>contact_id = js ''dan'', contact_publicKey = Some (js ''d0d0''), signatureKey = Some (js ''5151'')\<rparr>],
      messages =
        [\<lparr>msg_id = js ''m1'', sender = js ''bob'', receiver = js ''me'', content = js ''hi'',
          timestamp = 1, status = js ''sent''\<rparr>,
         \<lparr>msg_id = js ''m2'', sender = js ''me'', receiver = js ''bob'', content = js ''yo'',
          timestamp = 2, status = js ''sent''\<rparr>,
         \<lparr>msg_id = js ''m3'', sender = js ''eve'', receiver = js ''me'', content = js ''psst'',
          timestamp = 3, status = js ''sent''\<rparr>],
      localStorage = Map.empty\<rparr>"

definition toy_user :: user_profile where
  "toy_user = \<lparr>userId = js ''me'', sessionKey = js ''0102030405060708090a0b0c0d0e0f10'',
                 starknetAddress = js ''0x1''\<rparr>"

definition toy_frame :: js_string where
  \<open>toy_frame =
     js ''{"event":"MessageSent","encrypted_content":"0102030405060708090a0b0c:69666d6d70","sender":"alice"}''\<close>

definition no_messages :: message_list where
  "no_messages = \<lparr>chat_messages = [], messagesRef = [], loading = False, console = []\<rparr>"

section \<open>Properties\<close>

subsection \<open>Hexadecimal encoding\<close>





lemma split_on_nonempty: "split_on d s \<noteq> []"
  by (induction s) (auto split: list.splits)



lemma js_colon: "js '':'' = [0x3A]"
  by (simp add: js_def)






subsection \<open>Encryption and decryption\<close>






text \<open>
  The two operations disagree on longer keys: where the first 32 bytes of a longer key
  are importable, the hybrid \<open>encryptAES\<close> seals under them, and \<open>decryptAES\<close> fails to
  import the whole key.
\<close>

lemma encryptAES_hybrid_long_key:
  assumes "aead_contract pf" and "32 < length (hex_decode K)"
    and k: "importKey pf (take 32 (hex_decode K)) = Inr k"
    and "generateKyberKeypair_hybrid pf = Inr kp"
  shows "(\<exists>c. encryptAES_hybrid pf P K = Inr c) \<and> (\<exists>e. decryptAES pf (a @ js '':'' @ b) K = Inl e)"
proof
  from k assms(1) obtain c where
    "aes_gcm_encrypt pf k (getRandomValues pf) (text_encode pf P) = Inr c"
    unfolding aead_contract_def by blast
  with k assms(4) show "\<exists>c. encryptAES_hybrid pf P K = Inr c"
    by (simp add: encryptAES_hybrid_def)
  have "length (hex_decode K) \<notin> {16, 24, 32}"
    using assms(2) by auto
  with assms(1) have "\<forall>k. importKey pf (hex_decode K) \<noteq> Inr k"
    unfolding aead_contract_def by blast
  then obtain e where e: "importKey pf (hex_decode K) = Inl e"
    by (cases "importKey pf (hex_decode K)") auto
  obtain p q ps where "split_on 0x3A (a @ js '':'' @ b) = p # q # ps"
  proof (cases "split_on 0x3A (a @ js '':'' @ b)")
    case Nil
    then show ?thesis using split_on_nonempty by blast
  next
    case (Cons p ps)
    have "2 \<le> length (split_on 0x3A (a @ js '':'' @ b))"
      by (induction a) (auto simp: js_colon split: list.splits intro: Suc_leI simp: split_on_nonempty)
    with Cons that show ?thesis by (cases ps) auto
  qed
  with e show "\<exists>e. decryptAES pf (a @ js '':'' @ b) K = Inl e"
    by (simp add: decryptAES_def)
qed

text \<open>What the hybrid \<open>encryptAES\<close> returns, when it returns.\<close>

lemma encryptAES_hybrid_output:
  assumes "encryptAES_hybrid pf m K = Inr c"
  shows "\<exists>ct kp. generateKyberKeypair_hybrid pf = Inr kp \<and>
           c = hex_encode (getRandomValues pf) @ js '':'' @ hex_encode ct @ js '':'' @
               hex_encode (text_encode pf (publicKey kp))"
  using assms by (auto simp: encryptAES_hybrid_def Let_def split: sum.splits)

text \<open>
  C2. The third part of the hybrid output is the encoded public key of the keypair
  generated inside \<open>encryptAES\<close>. Two encryptions of one message under different keys
  differ in the ciphertext and agree on the third part; no recipient key is an input.
\<close>

theorem encryptAES_hybrid_third_part:
  "encryptAES_hybrid toy_platform (js ''hello'') (js ''0102030405060708090a0b0c0d0e0f10'')
     = Inr (js ''0102030405060708090a0b0c:69666d6d70:61626364'')
   \<and> encryptAES_hybrid toy_platform (js ''hello'') (js ''0202030405060708090a0b0c0d0e0f10'')
     = Inr (js ''0102030405060708090a0b0c:6a676e6e71:61626364'')
   \<and> generateKyberKeypair_hybrid toy_platform
     = Inr \<lparr>publicKey = js ''abcd'', privateKey = js ''ef''\<rparr>
   \<and> hex_encode (text_encode toy_platform (js ''abcd'')) = js ''61626364''"
  by code_simp

subsection \<open>Signature verification\<close>



text \<open>Where the PQC module does not initialise, \<open>verifySignature\<close> raises on every input.\<close>

lemma verifySignature_uninitialised:
  "pqcInit pf = Inl e \<Longrightarrow>
     verifySignature pf m s pk = Inl e \<and> verifySignature_hybrid pf m s pk = Inl e"
  by (simp add: verifySignature_def verifySignature_hybrid_def verifySignature_alg_def)





subsection \<open>Identifiers\<close>

text \<open>
  C8. \<open>generateDID\<close> returns as soon as the PQC module hands out a keypair, and the
  identifier it returns is the namespace prefix followed by the first 16 code units of
  the public key it returns with it, in both variants; so two results with the same
  public key have the same identifier.
\<close>

theorem generateDID_id:
  "(pqcInit pf = Inr () \<and> kemKeypair pf (js ''ML-KEM-1024'') = Inr (pk, sk) \<longrightarrow>
      generateDID pf =
        Inr \<lparr>did_id = js ''did:tetracrypt:'' @ take 16 (hex_encode pk),
             did_publicKey = hex_encode pk, did_privateKey = hex_encode sk\<rparr>)
   \<and> (pqcInit pf = Inr () \<and> kemKeypair pf (js ''Kyber'') = Inr (pk, sk) \<longrightarrow>
      generateDID_hybrid pf =
        Inr \<lparr>did_id = js ''did:tetracrypt:'' @ take 16 (hex_encode pk),
             did_publicKey = hex_encode pk, did_privateKey = hex_encode sk\<rparr>)
   \<and> (generateDID pf = Inr d \<or> generateDID_hybrid pf = Inr d \<longrightarrow>
      did_id d = js ''did:tetracrypt:'' @ take 16 (did_publicKey d))
   \<and> ((generateDID pf = Inr d \<or> generateDID_hybrid pf = Inr d)
      \<and> (generateDID pf' = Inr d' \<or> generateDID_hybrid pf' = Inr d')
      \<and> did_publicKey d' = did_publicKey d \<longrightarrow> did_id d' = did_id d)"
  by (auto simp: generateDID_def generateDID_hybrid_def generateMLKEMKeypair_def
        generateKyberKeypair_hybrid_def generateKeypair_def did_of_keypair_def
        split: sum.splits)

theorem generateDID_id_witness:
  "pqcInit toy_platform = Inr ()
   \<and> kemKeypair toy_platform (js ''ML-KEM-1024'') = Inr ([171, 205], [239])
   \<and> kemKeypair toy_platform (js ''Kyber'') = Inr ([171, 205], [239])
   \<and> generateDID toy_platform =
        Inr \<lparr>did_id = js ''did:tetracrypt:abcd'', did_publicKey = js ''abcd'',
             did_privateKey = js ''ef''\<rparr>
   \<and> generateDID_hybrid toy_platform =
        Inr \<lparr>did_id = js ''did:tetracrypt:abcd'', did_publicKey = js ''abcd'',
             did_privateKey = js ''ef''\<rparr>
   \<and> js ''did:tetracrypt:abcd'' = js ''did:tetracrypt:'' @ take 16 (js ''abcd'')"
proof -
  have i: "pqcInit toy_platform = Inr ()"
    by (simp add: toy_platform_def)
  have k: "kemKeypair toy_platform alg = Inr ([171, 205], [239])" for alg
    by (simp add: toy_platform_def)
  have h: "hex_encode [171, 205] = js ''abcd''" "hex_encode [239] = js ''ef''"
    by code_simp+
  have t: "js ''did:tetracrypt:'' @ take 16 (js ''abcd'') = js ''did:tetracrypt:abcd''"
    by (simp add: js_def)
  from generateDID_id [of toy_platform "[171, 205]" "[239]" _ toy_platform] i k
  have "generateDID toy_platform =
          Inr \<lparr>did_id = js ''did:tetracrypt:'' @ take 16 (hex_encode [171, 205]),
               did_publicKey = hex_encode [171, 205], did_privateKey = hex_encode [239]\<rparr>"
    and "generateDID_hybrid toy_platform =
          Inr \<lparr>did_id = js ''did:tetracrypt:'' @ take 16 (hex_encode [171, 205]),
               did_publicKey = hex_encode [171, 205], did_privateKey = hex_encode [239]\<rparr>"
    by blast+
  then show ?thesis
    unfolding h t using i k t by simp
qed

subsection \<open>Proof generation and verification\<close>

text \<open>
  C3. The proof generated for a digest verifies against that digest, and it does not
  verify against a digest whose commitment is different.
\<close>

theorem verifyZKProof_generateZKProof:
  "verifyZKProof pf d (Some (generateZKProof pf d))
   \<and> (poseidon_sha256 pf d' \<noteq> poseidon_sha256 pf d \<longrightarrow>
        \<not> verifyZKProof pf d' (Some (generateZKProof pf d)))"
  by (simp add: verifyZKProof_def generateZKProof_def)

theorem verifyZKProof_generateZKProof_witness:
  "verifyZKProof toy_platform (js ''a'') (Some (generateZKProof toy_platform (js ''a'')))
   \<and> poseidon_sha256 toy_platform (js ''b'') \<noteq> poseidon_sha256 toy_platform (js ''a'')
   \<and> \<not> verifyZKProof toy_platform (js ''b'') (Some (generateZKProof toy_platform (js ''a'')))"
  using verifyZKProof_generateZKProof [of toy_platform "js ''a''" "js ''b''"]
  by (simp add: toy_platform_def js_def)

subsection \<open>The storage module\<close>






lemma with_signatureKey_defined: "\<exists>k. signatureKey (with_signatureKey c) = Some k"
  by (cases "signatureKey c") (auto simp: with_signatureKey_def)

text \<open>
  C10. What \<open>getContacts\<close> returns is the stored list, or the list parsed from
  \<open>localStorage\<close> when the stored one is empty, with every contact passed through the
  default: each returned contact has a \<open>signatureKey\<close>; where the stored one was
  absent or empty it is the contact's \<open>publicKey\<close>, or the empty string when that is
  absent too; any other contact is returned as stored. \<open>getContactById\<close> returns one of
  these contacts.
\<close>

theorem getContacts_signatureKey:
  "(contacts st \<noteq> [] \<longrightarrow>
      fst (getContacts sz st) = Inr (map with_signatureKey (contacts st)))
   \<and> (getContacts sz st = (Inr cs, st') \<longrightarrow>
        (\<forall>c \<in> set cs. \<exists>k. signatureKey c = Some k)
        \<and> (\<exists>stored. cs = map with_signatureKey stored
              \<and> (contacts st \<noteq> [] \<longrightarrow> stored = contacts st)))
   \<and> (signatureKey c = None \<or> signatureKey c = Some [] \<longrightarrow>
        with_signatureKey c =
          c\<lparr>signatureKey := Some (case contact_publicKey c of Some p \<Rightarrow> p | None \<Rightarrow> [])\<rparr>)
   \<and> (signatureKey d \<noteq> None \<and> signatureKey d \<noteq> Some [] \<longrightarrow> with_signatureKey d = d)
   \<and> (getContactById sz st ident = (Inr (Some c'), st'') \<longrightarrow> (\<exists>k. signatureKey c' = Some k))"
proof -
  have ret: "\<exists>stored. cs = map with_signatureKey stored \<and> (contacts st \<noteq> [] \<longrightarrow> stored = contacts st)"
    if "getContacts sz st = (Inr cs, st')" for cs st'
    using that
    by (auto simp: getContacts_def Let_def split: if_splits option.splits sum.splits)
  have def: "\<forall>c \<in> set cs. \<exists>k. signatureKey c = Some k"
    if "getContacts sz st = (Inr cs, st')" for cs st'
  proof
    fix c
    assume "c \<in> set cs"
    with ret [OF that] have "c \<in> range with_signatureKey"
      by auto
    then obtain x where "c = with_signatureKey x"
      by (rule rangeE)
    then show "\<exists>k. signatureKey c = Some k"
      by (simp add: with_signatureKey_defined)
  qed
  have byid: "\<exists>k. signatureKey c' = Some k"
    if "getContactById sz st ident = (Inr (Some c'), st'')"
  proof -
    from that obtain cs where cs: "getContacts sz st = (Inr cs, st'')"
      and f: "find (\<lambda>contact. contact_id contact = ident) cs = Some c'"
      by (auto simp: getContactById_def split: prod.splits sum.splits)
    from f have "c' \<in> set cs"
      by (auto simp: find_Some_iff)
    with def [OF cs] show ?thesis by blast
  qed
  have first: "contacts st \<noteq> [] \<longrightarrow> fst (getContacts sz st) = Inr (map with_signatureKey (contacts st))"
    by (simp add: getContacts_def Let_def)
  show ?thesis
    using first ret def byid by (auto simp: with_signatureKey_def)
qed

lemma toy_contacts:
  "fst (getContacts toy_serializer toy_storage) =
     Inr [\<lparr>contact_id = js ''bob'', contact_publicKey = Some (js ''b0b0''), signatureKey = Some (js ''b0b0'')\<rparr>,
          \<lparr>contact_id = js ''eve'', contact_publicKey = None, signatureKey = Some []\<rparr>,
          \<lparr>contact_id = js ''dan'', contact_publicKey = Some (js ''d0d0''), signatureKey = Some (js ''5151'')\<rparr>]"
  by (simp add: getContacts_def toy_storage_def with_signatureKey_def Let_def js_def)

lemma toy_contact_bob:
  "fst (getContactById toy_serializer toy_storage (js ''bob'')) =
     Inr (Some \<lparr>contact_id = js ''bob'', contact_publicKey = Some (js ''b0b0''),
                 signatureKey = Some (js ''b0b0'')\<rparr>)"
  by (simp add: getContactById_def getContacts_def toy_storage_def with_signatureKey_def Let_def
        js_def)

theorem getContacts_signatureKey_witness:
  "contacts toy_storage \<noteq> []
   \<and> getContacts toy_serializer toy_storage =
       (Inr [\<lparr>contact_id = js ''bob'', contact_publicKey = Some (js ''b0b0''), signatureKey = Some (js ''b0b0'')\<rparr>,
             \<lparr>contact_id = js ''eve'', contact_publicKey = None, signatureKey = Some []\<rparr>,
             \<lparr>contact_id = js ''dan'', contact_publicKey = Some (js ''d0d0''), signatureKey = Some (js ''5151'')\<rparr>],
        snd (getContacts toy_serializer toy_storage))
   \<and> signatureKey (contacts toy_storage ! 0) = None
   \<and> with_signatureKey (contacts toy_storage ! 0) =
       \<lparr>contact_id = js ''bob'', contact_publicKey = Some (js ''b0b0''), signatureKey = Some (js ''b0b0'')\<rparr>
   \<and> signatureKey (contacts toy_storage ! 2) = Some (js ''5151'')
   \<and> with_signatureKey (contacts toy_storage ! 2) = contacts toy_storage ! 2
   \<and> getContactById toy_serializer toy_storage (js ''bob'') =
       (Inr (Some \<lparr>contact_id = js ''bob'', contact_publicKey = Some (js ''b0b0''),
                   signatureKey = Some (js ''b0b0'')\<rparr>),
        snd (getContactById toy_serializer toy_storage (js ''bob'')))
   \<and> (\<exists>k. signatureKey \<lparr>contact_id = js ''bob'', contact_publicKey = Some (js ''b0b0''),
                   signatureKey = Some (js ''b0b0'')\<rparr> = Some k)"
proof -
  have ne: "contacts toy_storage \<noteq> []"
    by (simp add: toy_storage_def)
  have g: "getContacts toy_serializer toy_storage =
       (Inr [\<lparr>contact_id = js ''bob'', contact_publicKey = Some (js ''b0b0''), signatureKey = Some (js ''b0b0'')\<rparr>,
             \<lparr>contact_id = js ''eve'', contact_publicKey = None, signatureKey = Some []\<rparr>,
             \<lparr>contact_id = js ''dan'', contact_publicKey = Some (js ''d0d0''), signatureKey = Some (js ''5151'')\<rparr>],
        snd (getContacts toy_serializer toy_storage))"
    using toy_contacts by (metis prod.collapse)
  have b: "getContactById toy_serializer toy_storage (js ''bob'') =
       (Inr (Some \<lparr>contact_id = js ''bob'', contact_publicKey = Some (js ''b0b0''),
                   signatureKey = Some (js ''b0b0'')\<rparr>),
        snd (getContactById toy_serializer toy_storage (js ''bob'')))"
    using toy_contact_bob by (metis prod.collapse)
  have k: "signatureKey (contacts toy_storage ! 0) = None"
    "signatureKey (contacts toy_storage ! 2) = Some (js ''5151'')"
    "contact_publicKey (contacts toy_storage ! 0) = Some (js ''b0b0'')"
    "contact_id (contacts toy_storage ! 0) = js ''bob''"
    by (simp_all add: toy_storage_def)
  have n: "js ''5151'' \<noteq> []"
    by (simp add: js_def)
  from getContacts_signatureKey [of toy_storage toy_serializer _ _ "contacts toy_storage ! 0"
      "contacts toy_storage ! 2" "js ''bob''"] ne g b k n
  show ?thesis
    by (simp add: toy_storage_def)
qed

subsection \<open>Incoming frames and the connection\<close>





text \<open>
  C6. A frame received twice is delivered not once but never: both copies are dropped
  by the proof check.
\<close>

theorem same_frame_twice:
  "websocket_onmessage toy_platform toy_user 1 no_messages toy_frame
     = Inr (warn no_messages InvalidProof)
   \<and> websocket_onmessage toy_platform toy_user 2 (warn no_messages InvalidProof) toy_frame
     = Inr (warn (warn no_messages InvalidProof) InvalidProof)
   \<and> chat_messages (warn (warn no_messages InvalidProof) InvalidProof) = []"
  by code_simp

text \<open>
  The duplicate check compares the received ciphertext with the plaintexts shown: after
  a delivery it recognises the same envelope only if its plaintext equals its
  ciphertext.
\<close>

lemma is_duplicate_after_delivery:
  "is_duplicate (messagesRef (append_message ml
       \<lparr>chat_sender = s, chat_content = plain, chat_timestamp = t\<rparr>)) (Some (JString c))
   \<longleftrightarrow> plain = c \<or> c \<in> chat_content ` set (chat_messages ml)"
  by (auto simp: is_duplicate_def append_message_def list_ex_iff)

text \<open>
  C7. After \<open>ws.close()\<close> the same \<open>onclose\<close> handler runs as after a close by the
  transport: a reconnect timer is armed, and when it fires a new socket is opened and
  the channel is \<open>Connecting\<close> again.
\<close>

theorem close_reconnects:
  "ws_close ch = channel_step ch TransportClosed
   \<and> timers (ws_close ch) = timers ch @ [3000]
   \<and> connectionState (ws_close ch) = Disconnected
   \<and> connectionState (timer_fires (ws_close ch)) = Connecting
   \<and> sockets_opened (timer_fires (ws_close ch)) = Suc (sockets_opened ch)
   \<and> connectionState (foldl channel_step mounted [Opened, CloseCalled, TimerFired]) = Connecting
   \<and> sockets_opened (foldl channel_step mounted [Opened, CloseCalled, TimerFired]) = 2"
  by (cases "timers ch")
     (simp_all add: ws_close_def websocket_onclose_def timer_fires_def connectWebSocket_def
        websocket_onopen_def mounted_def)

end
